theory Spec2Isabelle
  imports Main
begin

section \<open>Python values the connector utilities work on\<close>

text \<open>
  The module \<^verbatim>\<open>openware_utils.py\<close> is glue code over Python strings, lists and the
  objects of its collaborators (a compiled regular expression, the nonce source, an
  aiohttp request). Every function is embedded as a HOL function that returns
  \<open>py_exception + 'a\<close>: \<open>Inl e\<close> is the exception \<open>e\<close> leaving the function, \<open>Inr v\<close> is a
  normal return of \<open>v\<close>.

  A value of \<open>py_exception\<close> stands for an instance of Python's \<^verbatim>\<open>Exception\<close> class, the
  class the handlers of the module (\<^verbatim>\<open>except Exception\<close>) catch. The synchronous
  functions raise nothing else. The response normalizer awaits its collaborator, and an
  \<^verbatim>\<open>await\<close> can also raise what derives from \<^verbatim>\<open>BaseException\<close> only; its model has a type
  of its own for that, \<open>py_raised\<close>.
\<close>

datatype py_exception =
    IndexError
  | TypeError
  | AttributeError
  | Fault string  \<comment> \<open>any other exception, raised by a collaborator\<close>

subsection \<open>Strings\<close>

text \<open>
  A string is a list of 8-bit characters, read as the code points U+0000 to U+00FF:
  ASCII, the alphabet of ticker symbols and of the exchange's wire format, and the
  Latin-1 supplement. On these \<^verbatim>\<open>str.lower\<close> is a map of single characters: the uppercase
  letters are \<^verbatim>\<open>A\<close> to \<^verbatim>\<open>Z\<close> and U+00C0 to U+00DE without the multiplication sign U+00D7,
  each 32 below its lowercase letter, and every other character is left as it is.
  \<^verbatim>\<open>str.upper\<close> is modelled on ASCII text, where it is the inverse shift: beyond ASCII it
  leaves this alphabet (U+00FF, U+00B5) or lengthens the string (U+00DF), so every
  property below that goes through \<open>py_upper\<close> either confines the text to ASCII letters
  or does not depend on the characters uppercasing produces.
\<close>

definition is_ascii_upper :: "char \<Rightarrow> bool" where
  "is_ascii_upper c = (65 \<le> (of_char c :: nat) \<and> (of_char c :: nat) \<le> 90)"

definition is_ascii_lower :: "char \<Rightarrow> bool" where
  "is_ascii_lower c = (97 \<le> (of_char c :: nat) \<and> (of_char c :: nat) \<le> 122)"

definition is_ascii_alpha :: "char \<Rightarrow> bool" where
  "is_ascii_alpha c = (is_ascii_upper c \<or> is_ascii_lower c)"

definition is_uppercase :: "char \<Rightarrow> bool" where
  "is_uppercase c =
     (is_ascii_upper c
      \<or> (192 \<le> (of_char c :: nat) \<and> (of_char c :: nat) \<le> 222 \<and> (of_char c :: nat) \<noteq> 215))"

definition lower_char :: "char \<Rightarrow> char" where
  "lower_char c = (if is_uppercase c then char_of ((of_char c :: nat) + 32) else c)"

definition upper_char :: "char \<Rightarrow> char" where
  "upper_char c = (if is_ascii_lower c then char_of ((of_char c :: nat) - 32) else c)"

definition py_lower :: "string \<Rightarrow> string" where
  "py_lower s = map lower_char s"

definition py_upper :: "string \<Rightarrow> string" where
  "py_upper s = map upper_char s"

text \<open>\<^verbatim>\<open>s.replace(old, new)\<close> for a one-character \<open>old\<close>: every occurrence is replaced.\<close>

definition py_replace :: "char \<Rightarrow> string \<Rightarrow> string \<Rightarrow> string" where
  "py_replace old new s = concat (map (\<lambda>c. if c = old then new else [c]) s)"

text \<open>
  \<^verbatim>\<open>s.split(sep)\<close> for a one-character \<open>sep\<close>: a scan that closes the current field at
  every separator. The result always has at least one field.
\<close>

fun split_scan :: "char \<Rightarrow> string \<Rightarrow> string \<Rightarrow> string list" where
  "split_scan sep cur [] = [cur]"
| "split_scan sep cur (c # cs) =
     (if c = sep then cur # split_scan sep [] cs else split_scan sep (cur @ [c]) cs)"

definition py_split :: "char \<Rightarrow> string \<Rightarrow> string list" where
  "py_split sep s = split_scan sep [] s"

text \<open>
  Subscription \<^verbatim>\<open>xs[i]\<close> of a list or a string of length \<open>n\<close>: the indices \<open>-n\<close> to \<open>-1\<close>
  address the elements from the back, \<open>0\<close> to \<open>n - 1\<close> from the front, and every other
  index is an \<^verbatim>\<open>IndexError\<close>.
\<close>

definition py_getitem :: "'a list \<Rightarrow> int \<Rightarrow> py_exception + 'a" where
  "py_getitem xs i =
     (if - int (length xs) \<le> i \<and> i < 0 then Inr (xs ! nat (int (length xs) + i))
      else if 0 \<le> i \<and> i < int (length xs) then Inr (xs ! nat i)
      else Inl IndexError)"

text \<open>\<^verbatim>\<open>str(n)\<close> for an integer \<open>n\<close>, as an f-string renders it: decimal digits, with a sign.\<close>

definition digit_char :: "nat \<Rightarrow> char" where
  "digit_char d = char_of (48 + d)"

fun str_nat :: "nat \<Rightarrow> string" where
  "str_nat n = (if n < 10 then [digit_char n] else str_nat (n div 10) @ [digit_char (n mod 10)])"

declare str_nat.simps [simp del]

definition py_str_int :: "int \<Rightarrow> string" where
  "py_str_int n = (if n < 0 then CHR ''-'' # str_nat (nat (- n)) else str_nat (nat n))"

section \<open>Symbol codec\<close>

text \<open>
  \<^verbatim>\<open>TRADING_PAIR_SPLITTER\<close> is compiled from \<^verbatim>\<open>Constants.TRADING_PAIR_SPLITTER\<close>, a constant
  of a module that is not part of the sources at hand, so the compiled pattern is a
  parameter: its \<^verbatim>\<open>match\<close> method, a function of the subject string. The call returns a
  match object or \<^verbatim>\<open>None\<close>. A match object holds the whole match (group 0) and the
  pattern's capture groups, each the captured text or \<^verbatim>\<open>None\<close> when the group took no part
  in the match.
\<close>

record py_match =
  group0 :: string
  subgroups :: "string option list"

type_synonym pattern = "string \<Rightarrow> py_exception + py_match option"

text \<open>\<^verbatim>\<open>m.group(i)\<close>: \<^verbatim>\<open>IndexError\<close> ("no such group") beyond the pattern's groups.\<close>

definition match_group :: "py_match \<Rightarrow> nat \<Rightarrow> py_exception + string option" where
  "match_group m i =
     (if i = 0 then Inr (Some (group0 m))
      else if i \<le> length (subgroups m) then Inr (subgroups m ! (i - 1))
      else Inl IndexError)"

text \<open>
  The body of the \<^verbatim>\<open>try\<close> in \<^verbatim>\<open>split_trading_pair\<close>. \<^verbatim>\<open>m.group\<close> on \<^verbatim>\<open>None\<close> (no match) is an
  \<^verbatim>\<open>AttributeError\<close>.
\<close>

definition split_trading_pair_try ::
  "pattern \<Rightarrow> string \<Rightarrow> py_exception + (string option \<times> string option)" where
  "split_trading_pair_try splitter trading_pair =
     (case splitter trading_pair of
        Inl e \<Rightarrow> Inl e
      | Inr None \<Rightarrow> Inl AttributeError
      | Inr (Some m) \<Rightarrow>
          (case match_group m 1 of
             Inl e \<Rightarrow> Inl e
           | Inr g1 \<Rightarrow>
               (case match_group m 2 of
                  Inl e \<Rightarrow> Inl e
                | Inr g2 \<Rightarrow> Inr (g1, g2))))"

text \<open>\<^verbatim>\<open>except Exception: return None\<close>.\<close>

definition split_trading_pair ::
  "pattern \<Rightarrow> string \<Rightarrow> py_exception + (string option \<times> string option) option" where
  "split_trading_pair splitter trading_pair =
     (case split_trading_pair_try splitter trading_pair of
        Inl e \<Rightarrow> Inr None
      | Inr groups \<Rightarrow> Inr (Some groups))"

text \<open>
  \<^verbatim>\<open>convert_from_exchange_trading_pair\<close> calls \<^verbatim>\<open>split_trading_pair\<close> twice: once for the
  \<^verbatim>\<open>None\<close> test, once to unpack the pair. Unpacking \<^verbatim>\<open>None\<close> would be a \<^verbatim>\<open>TypeError\<close>, and
  \<^verbatim>\<open>.upper()\<close> on a group that is \<^verbatim>\<open>None\<close> is an \<^verbatim>\<open>AttributeError\<close>.
\<close>

definition convert_from_exchange_trading_pair ::
  "pattern \<Rightarrow> string \<Rightarrow> py_exception + string option" where
  "convert_from_exchange_trading_pair splitter ex_trading_pair =
     (case split_trading_pair splitter ex_trading_pair of
        Inl e \<Rightarrow> Inl e
      | Inr None \<Rightarrow> Inr None
      | Inr (Some regex_match) \<Rightarrow>
          (case split_trading_pair splitter ex_trading_pair of
             Inl e \<Rightarrow> Inl e
           | Inr None \<Rightarrow> Inl TypeError
           | Inr (Some (base_asset, quote_asset)) \<Rightarrow>
               (case base_asset of
                  None \<Rightarrow> Inl AttributeError
                | Some b \<Rightarrow>
                    (case quote_asset of
                       None \<Rightarrow> Inl AttributeError
                     | Some q \<Rightarrow> Inr (Some (py_upper b @ ''-'' @ py_upper q))))))"

definition convert_to_exchange_trading_pair :: "string \<Rightarrow> string" where
  "convert_to_exchange_trading_pair hb_trading_pair =
     py_lower (py_replace (CHR ''-'') [] hb_trading_pair)"

text \<open>
  The canonical pairs of the specification: base and quote are non-empty strings of
  uppercase letters.
\<close>

definition uppercase_ticker :: "string \<Rightarrow> bool" where
  "uppercase_ticker s = (s \<noteq> [] \<and> list_all is_ascii_upper s)"

text \<open>
  The pattern of the specification's example, \<^verbatim>\<open>(eth)(btc)\<close>: \<^verbatim>\<open>match\<close> anchors at the start
  of the subject, so it matches every string that starts with \<^verbatim>\<open>ethbtc\<close>.
\<close>

definition eth_btc_pattern :: pattern where
  "eth_btc_pattern s =
     (if take 6 s = ''ethbtc''
      then Inr (Some \<lparr>group0 = ''ethbtc'', subgroups = [Some ''eth'', Some ''btc'']\<rparr>)
      else Inr None)"

section \<open>Order ID generator\<close>

text \<open>
  \<^verbatim>\<open>Constants.HBOT_BROKER_ID\<close> is a constant of the module that is not at hand: the
  parameter \<open>broker_id\<close>. \<^verbatim>\<open>get_tracking_nonce()\<close> belongs to the framework: the parameter
  \<open>nonce\<close> is the integer that the call returns in this invocation. The indexing
  operations come in the order of the source, and the first that fails ends the call.
\<close>

definition get_new_client_order_id ::
  "string \<Rightarrow> int \<Rightarrow> bool \<Rightarrow> string \<Rightarrow> py_exception + string" where
  "get_new_client_order_id broker_id nonce is_buy trading_pair =
     (let side = (if is_buy then ''B'' else ''S'');
          symbols = py_split (CHR ''-'') trading_pair
      in case py_getitem symbols 0 of
           Inl e \<Rightarrow> Inl e
         | Inr symbol0 \<Rightarrow>
             (let base = py_upper symbol0
              in case py_getitem symbols 1 of
                   Inl e \<Rightarrow> Inl e
                 | Inr symbol1 \<Rightarrow>
                     (let quote = py_upper symbol1
                      in case py_getitem base (- 1) of
                           Inl e \<Rightarrow> Inl e
                         | Inr base_last \<Rightarrow>
                             (let base_str = take 4 base @ [base_last]
                              in case py_getitem quote (- 1) of
                                   Inl e \<Rightarrow> Inl e
                                 | Inr quote_last \<Rightarrow>
                                     (let quote_str = take 2 quote @ [quote_last]
                                      in Inr (broker_id @ ''-'' @ side @ base_str @ quote_str
                                              @ py_str_int nonce))))))"

text \<open>The asset codes of the specification: non-empty strings of letters.\<close>

definition alphabetic :: "string \<Rightarrow> bool" where
  "alphabetic s = (s \<noteq> [] \<and> list_all is_ascii_alpha s)"

text \<open>Decimal digits, and the number a string of digits denotes, read from its last digit.\<close>

definition is_digit :: "char \<Rightarrow> bool" where
  "is_digit c = (48 \<le> (of_char c :: nat) \<and> (of_char c :: nat) \<le> 57)"

fun digits_value :: "string \<Rightarrow> nat" where
  "digits_value [] = 0"
| "digits_value (c # cs) = ((of_char c :: nat) - 48) + 10 * digits_value cs"

text \<open>
  The components of a trading pair the generator indexes: the base is the text before
  the first \<open>-\<close>, the quote the text between the first \<open>-\<close> and the next one (or the end).
\<close>

definition base_component :: "string \<Rightarrow> string" where
  "base_component p = takeWhile (\<lambda>c. c \<noteq> CHR ''-'') p"

definition quote_component :: "string \<Rightarrow> string" where
  "quote_component p =
     takeWhile (\<lambda>c. c \<noteq> CHR ''-'') (tl (dropWhile (\<lambda>c. c \<noteq> CHR ''-'') p))"

section \<open>Response normalizer\<close>

text \<open>
  The parsed body is a Python value: what \<^verbatim>\<open>response.json()\<close> returns (JSON \<^verbatim>\<open>null\<close> is
  \<^verbatim>\<open>None\<close>, an object is a dictionary with string keys), or a string. A float is given by
  mantissa and exponent; the code never looks into a number.
\<close>

datatype pyval =
    PNone
  | PBool bool
  | PInt int
  | PFloat int int
  | PStr string
  | PList "pyval list"
  | PDict "(string \<times> pyval) list"

text \<open>
  \<^verbatim>\<open>x in v\<close> for a string \<open>x\<close>: a substring test on a string, membership in a list, the
  key test on a dictionary, and a \<^verbatim>\<open>TypeError\<close> on a value that is not a container.
\<close>

fun is_substring :: "string \<Rightarrow> string \<Rightarrow> bool" where
  "is_substring x [] = (x = [])"
| "is_substring x (c # cs) = (take (length x) (c # cs) = x \<or> is_substring x cs)"

fun py_in :: "string \<Rightarrow> pyval \<Rightarrow> py_exception + bool" where
  "py_in x (PStr s) = Inr (is_substring x s)"
| "py_in x (PList vs) = Inr (PStr x \<in> set vs)"
| "py_in x (PDict kvs) = Inr (x \<in> set (map fst kvs))"
| "py_in x PNone = Inl TypeError"
| "py_in x (PBool b) = Inl TypeError"
| "py_in x (PInt i) = Inl TypeError"
| "py_in x (PFloat m e) = Inl TypeError"

text \<open>
  \<^verbatim>\<open>str(b)\<close> for a bytes object \<open>b\<close>, the text \<^verbatim>\<open>b'...'\<close>: the quote is the double quote when
  the bytes hold a single quote and no double quote; the quote and the backslash are
  escaped, tab, newline and carriage return are written \<^verbatim>\<open>\t\<close>, \<^verbatim>\<open>\n\<close>, \<^verbatim>\<open>\r\<close>, and any
  other byte outside the printable ASCII range is written as \<^verbatim>\<open>\x\<close> and two hexadecimal
  digits.
\<close>

definition hex_digit :: "nat \<Rightarrow> char" where
  "hex_digit n = ''0123456789abcdef'' ! n"

definition repr_byte :: "char \<Rightarrow> char \<Rightarrow> string" where
  "repr_byte quote c =
     (if c = quote \<or> c = CHR 0x5C then [CHR 0x5C, c]
      else if c = CHR 0x09 then [CHR 0x5C, CHR ''t'']
      else if c = CHR 0x0A then [CHR 0x5C, CHR ''n'']
      else if c = CHR 0x0D then [CHR 0x5C, CHR ''r'']
      else if (of_char c :: nat) < 32 \<or> 127 \<le> (of_char c :: nat)
        then [CHR 0x5C, CHR ''x'', hex_digit ((of_char c :: nat) div 16),
              hex_digit ((of_char c :: nat) mod 16)]
      else [c])"

definition py_str_bytes :: "string \<Rightarrow> string" where
  "py_str_bytes bs =
     (let quote = (if CHR 0x27 \<in> set bs \<and> CHR 0x22 \<notin> set bs then CHR 0x22 else CHR 0x27)
      in CHR ''b'' # quote # concat (map (repr_byte quote) bs) @ [quote])"

text \<open>
  What an \<^verbatim>\<open>await\<close> of the request can raise: an instance of \<^verbatim>\<open>Exception\<close>, or an
  exception that derives from \<^verbatim>\<open>BaseException\<close> only, such as \<^verbatim>\<open>asyncio.CancelledError\<close> when
  the task is cancelled while it waits. \<^verbatim>\<open>except Exception\<close> catches the former and lets
  the latter pass.
\<close>

datatype py_raised =
    Exception py_exception
  | CancelledError
  | KeyboardInterrupt
  | SystemExit

text \<open>
  The collaborator: the request, entered with \<^verbatim>\<open>async with\<close>, yields a response or raises;
  leaving the block may raise too. A response has its status and reason phrase, and the
  outcomes of awaiting \<^verbatim>\<open>json()\<close> and \<^verbatim>\<open>read()\<close>.
\<close>

record response =
  status :: int
  reason :: string
  json :: "py_raised + pyval"
  read :: "py_raised + string"

record request_coroutine =
  aenter :: "py_raised + response"
  aexit :: "py_raised option"

text \<open>
  The local variables of \<^verbatim>\<open>aiohttp_response_with_errors\<close>. A block that raises leaves
  them as they were at the raise, so each block returns the variables and the exception
  that left it, if any.
\<close>

record locals =
  http_status :: "int option"
  parsed_response :: pyval
  request_errors :: bool

text \<open>
  The inner \<^verbatim>\<open>try\<close>: the raw body as text, cut to 100 characters when longer.
  \<^verbatim>\<open>except Exception: pass\<close> leaves the variables as they are; any other exception leaves
  the block.
\<close>

definition read_raw :: "response \<Rightarrow> locals \<Rightarrow> locals \<times> py_raised option" where
  "read_raw resp l =
     (case read resp of
        Inl (Exception e) \<Rightarrow> (l, None)
      | Inl raised \<Rightarrow> (l, Some raised)
      | Inr raw \<Rightarrow>
          (let text = py_str_bytes raw
           in if length text > 100
              then (l\<lparr>parsed_response := PStr (take 100 text @ '' ... (truncated)'')\<rparr>, None)
              else (l\<lparr>parsed_response := PStr text\<rparr>, None)))"

text \<open>
  The \<^verbatim>\<open>try\<close> around \<^verbatim>\<open>response.json()\<close>: its \<^verbatim>\<open>except Exception\<close> sets the flag and reads
  the raw body.
\<close>

definition read_body :: "response \<Rightarrow> locals \<Rightarrow> locals \<times> py_raised option" where
  "read_body resp l =
     (case json resp of
        Inr v \<Rightarrow> (l\<lparr>parsed_response := v\<rparr>, None)
      | Inl (Exception e) \<Rightarrow> read_raw resp (l\<lparr>request_errors := True\<rparr>)
      | Inl raised \<Rightarrow> (l, Some raised))"

text \<open>
  \<^verbatim>\<open>TempFailure\<close>, with the short-circuit of \<^verbatim>\<open>or\<close> and \<^verbatim>\<open>and\<close>: the membership test runs
  only on a body that is not \<^verbatim>\<open>None\<close> under a status other than 200 and 201.
\<close>

definition temp_failure :: "response \<Rightarrow> locals \<Rightarrow> py_exception + bool" where
  "temp_failure resp l =
     (if parsed_response l = PNone then Inr True
      else if status resp \<in> set [200, 201] then Inr False
      else (case py_in ''error'' (parsed_response l) of
              Inl e \<Rightarrow> Inl e
            | Inr found \<Rightarrow> Inr (\<not> found)))"

text \<open>The body of the \<^verbatim>\<open>async with\<close> block.\<close>

definition with_body :: "response \<Rightarrow> locals \<Rightarrow> locals \<times> py_raised option" where
  "with_body resp l0 =
     (let l1 = l0\<lparr>http_status := Some (status resp)\<rparr>
      in case read_body resp l1 of
           (l2, Some raised) \<Rightarrow> (l2, Some raised)
         | (l2, None) \<Rightarrow>
             (case temp_failure resp l2 of
                Inl e \<Rightarrow> (l2, Some (Exception e))
              | Inr failure \<Rightarrow>
                  if failure
                  then (l2\<lparr>parsed_response :=
                             (if parsed_response l2 = PNone then PStr (reason resp)
                              else parsed_response l2),
                           request_errors := True\<rparr>, None)
                  else (l2, None)))"

text \<open>
  The \<^verbatim>\<open>async with\<close> statement: entering, the body, leaving. An exception of the exit
  replaces the one of the body.
\<close>

definition async_with :: "request_coroutine \<Rightarrow> locals \<Rightarrow> locals \<times> py_raised option" where
  "async_with request l =
     (case aenter request of
        Inl raised \<Rightarrow> (l, Some raised)
      | Inr resp \<Rightarrow>
          (case with_body resp l of
             (l', Some raised) \<Rightarrow>
               (l', Some (case aexit request of None \<Rightarrow> raised | Some raised' \<Rightarrow> raised'))
           | (l', None) \<Rightarrow> (l', aexit request)))"

text \<open>
  The outer \<^verbatim>\<open>try\<close>: \<^verbatim>\<open>except Exception\<close> sets the flag, and the triple is returned. An
  exception that is not an instance of \<^verbatim>\<open>Exception\<close> leaves the function.
\<close>

definition aiohttp_response_with_errors ::
  "request_coroutine \<Rightarrow> py_raised + (int option \<times> pyval \<times> bool)" where
  "aiohttp_response_with_errors request_coroutine =
     (let l0 = \<lparr>http_status = None, parsed_response = PNone, request_errors = False\<rparr>
      in case async_with request_coroutine l0 of
           (l, None) \<Rightarrow> Inr (http_status l, parsed_response l, request_errors l)
         | (l, Some (Exception e)) \<Rightarrow> Inr (http_status l, parsed_response l, True)
         | (l, Some raised) \<Rightarrow> Inl raised)"



section \<open>Facts about the string operations\<close>

lemma py_replace_remove: "py_replace old [] s = filter (\<lambda>c. c \<noteq> old) s"
  by (induction s) (simp_all add: py_replace_def)

lemma lower_char_idem: "lower_char (lower_char c) = lower_char c"
  by (auto simp add: lower_char_def is_uppercase_def is_ascii_upper_def take_bit_eq_mod)

lemma lower_char_not_uppercase: "\<not> is_uppercase (lower_char c)"
  by (auto simp add: lower_char_def is_uppercase_def is_ascii_upper_def take_bit_eq_mod)

lemma lower_char_keeps: "\<not> is_uppercase c \<Longrightarrow> lower_char c = c"
  by (simp add: lower_char_def)

lemma lower_char_dash: "lower_char c = CHR ''-'' \<longleftrightarrow> c = CHR ''-''"
  by (auto simp add: lower_char_def is_uppercase_def is_ascii_upper_def char_of_eq_iff
      take_bit_eq_mod)

lemma upper_lower_char: "is_ascii_upper c \<Longrightarrow> upper_char (lower_char c) = c"
  by (simp add: lower_char_def is_uppercase_def upper_char_def is_ascii_upper_def is_ascii_lower_def
      take_bit_eq_mod)

lemma upper_lower_ticker: "list_all is_ascii_upper s \<Longrightarrow> py_upper (py_lower s) = s"
  by (induction s) (simp_all add: py_upper_def py_lower_def upper_lower_char)

lemma upper_not_dash: "is_ascii_upper c \<Longrightarrow> c \<noteq> CHR ''-''"
  by (auto simp add: is_ascii_upper_def)

lemma ticker_no_dash: "list_all is_ascii_upper s \<Longrightarrow> filter (\<lambda>c. c \<noteq> CHR ''-'') s = s"
  by (induction s) (simp_all add: upper_not_dash)

lemma convert_to_canonical:
  assumes "list_all is_ascii_upper b" and "list_all is_ascii_upper q"
  shows "convert_to_exchange_trading_pair (b @ ''-'' @ q) = py_lower b @ py_lower q"
  using assms
  by (simp add: convert_to_exchange_trading_pair_def py_replace_remove ticker_no_dash
      py_lower_def)

lemma dash_lower_char: "CHR ''-'' = lower_char c \<longleftrightarrow> c = CHR ''-''"
  using lower_char_dash [of c] by auto

lemma convert_to_eq:
  "convert_to_exchange_trading_pair s = map lower_char (filter (\<lambda>c. c \<noteq> CHR ''-'') s)"
  by (simp add: convert_to_exchange_trading_pair_def py_replace_remove py_lower_def)

lemma convert_to_no_dash: "CHR ''-'' \<notin> set (convert_to_exchange_trading_pair s)"
  by (induction s) (simp_all add: convert_to_eq dash_lower_char)

lemma filter_no_dash: "CHR ''-'' \<notin> set s \<Longrightarrow> filter (\<lambda>c. c \<noteq> CHR ''-'') s = s"
  by (induction s) auto

lemma lower_char_code:
  "(of_char (lower_char c) :: nat) = (if is_uppercase c then of_char c + 32 else of_char c)"
  by (auto simp add: lower_char_def is_uppercase_def is_ascii_upper_def take_bit_eq_mod)

lemma convert_to_pointwise:
  "list_all2 (\<lambda>r c. (of_char r :: nat) = (if is_uppercase c then of_char c + 32 else of_char c))
     (convert_to_exchange_trading_pair p) (filter (\<lambda>c. c \<noteq> CHR ''-'') p)"
  by (simp add: convert_to_eq list_all2_map1 lower_char_code list.rel_refl)

lemma convert_to_no_uppercase:
  "list_all (\<lambda>c. \<not> is_uppercase c) (convert_to_exchange_trading_pair p)"
  by (simp add: convert_to_eq list_all_iff lower_char_not_uppercase)

lemma convert_to_lowercase_input:
  "list_all (\<lambda>c. \<not> is_uppercase c) p \<Longrightarrow>
     convert_to_exchange_trading_pair p = filter (\<lambda>c. c \<noteq> CHR ''-'') p"
  by (induction p) (simp_all add: convert_to_eq lower_char_keeps)

lemma convert_to_idem:
  "convert_to_exchange_trading_pair (convert_to_exchange_trading_pair p)
     = convert_to_exchange_trading_pair p"
proof -
  have "convert_to_exchange_trading_pair (convert_to_exchange_trading_pair p)
          = map lower_char (convert_to_exchange_trading_pair p)"
    using convert_to_no_dash [of p]
    by (simp add: convert_to_eq [of "convert_to_exchange_trading_pair p"] filter_no_dash)
  also have "\<dots> = convert_to_exchange_trading_pair p"
    by (simp add: convert_to_eq lower_char_idem)
  finally show ?thesis .
qed

lemma convert_to_examples:
  "convert_to_exchange_trading_pair ''ETH-BTC'' = ''ethbtc''"
  "convert_to_exchange_trading_pair [CHR 0xC9, CHR ''-'', CHR ''X'', CHR ''-'']
     = [CHR 0xE9, CHR ''x'']"
  by (simp_all add: convert_to_eq lower_char_def is_uppercase_def is_ascii_upper_def
      char_of_eq_iff)

subsection \<open>Decimal rendering\<close>

lemma digit_char_value: "d < 10 \<Longrightarrow> (of_char (digit_char d) :: nat) - 48 = d"
  by (simp add: digit_char_def)

lemma digit_char_is_digit: "d < 10 \<Longrightarrow> is_digit (digit_char d)"
  by (simp add: digit_char_def is_digit_def)

lemma str_nat_value: "digits_value (rev (str_nat n)) = n"
proof (induction n rule: str_nat.induct)
  case (1 n)
  show ?case
  proof (cases "n < 10")
    case True
    then show ?thesis
      by (subst str_nat.simps) (simp add: digit_char_value)
  next
    case False
    then have "digits_value (rev (str_nat (n div 10))) = n div 10"
      using "1.IH" by simp
    with False show ?thesis
      by (subst str_nat.simps) (simp add: digit_char_value)
  qed
qed

lemma str_nat_inj: "str_nat n = str_nat m \<Longrightarrow> n = m"
  by (metis str_nat_value)

lemma str_nat_digits: "list_all is_digit (str_nat n)"
proof (induction n rule: str_nat.induct)
  case (1 n)
  show ?case
  proof (cases "n < 10")
    case True
    then show ?thesis
      by (subst str_nat.simps) (simp add: digit_char_is_digit)
  next
    case False
    then have "list_all is_digit (str_nat (n div 10))"
      using "1.IH" by simp
    with False show ?thesis
      by (subst str_nat.simps) (simp add: digit_char_is_digit)
  qed
qed

lemma str_nat_not_Nil: "str_nat n \<noteq> []"
  by (subst str_nat.simps) simp

lemma is_digit_not_dash: "is_digit c \<Longrightarrow> c \<noteq> CHR ''-''"
  by (auto simp add: is_digit_def)

lemma py_str_int_inj: "py_str_int n = py_str_int m \<Longrightarrow> n = m"
proof -
  assume eq: "py_str_int n = py_str_int m"
  have nd: "\<And>k. hd (str_nat k) \<noteq> CHR ''-''"
  proof -
    fix k
    have "is_digit (hd (str_nat k))"
      using str_nat_digits [of k] str_nat_not_Nil [of k]
      by (cases "str_nat k") simp_all
    then show "hd (str_nat k) \<noteq> CHR ''-''"
      by (rule is_digit_not_dash)
  qed
  show "n = m"
  proof (cases "n < 0"; cases "m < 0")
    assume "n < 0" "m < 0"
    with eq have "nat (- n) = nat (- m)"
      by (simp add: py_str_int_def str_nat_inj)
    with \<open>n < 0\<close> \<open>m < 0\<close> show ?thesis by simp
  next
    assume "n < 0" "\<not> m < 0"
    with eq have "str_nat (nat m) = CHR ''-'' # str_nat (nat (- n))"
      by (simp add: py_str_int_def)
    with nd [of "nat m"] show ?thesis by simp
  next
    assume "\<not> n < 0" "m < 0"
    with eq have "str_nat (nat n) = CHR ''-'' # str_nat (nat (- m))"
      by (simp add: py_str_int_def)
    with nd [of "nat n"] show ?thesis by simp
  next
    assume "\<not> n < 0" "\<not> m < 0"
    with eq have "nat n = nat m"
      by (simp add: py_str_int_def str_nat_inj)
    with \<open>\<not> n < 0\<close> \<open>\<not> m < 0\<close> show ?thesis by simp
  qed
qed

lemma is_digit_not_alpha: "is_digit c \<Longrightarrow> \<not> is_ascii_alpha c"
  by (auto simp add: is_digit_def is_ascii_alpha_def is_ascii_upper_def is_ascii_lower_def)

lemma dash_not_alpha: "\<not> is_ascii_alpha (CHR ''-'')"
  by (simp add: is_ascii_alpha_def is_ascii_upper_def is_ascii_lower_def)

lemma py_str_int_no_alpha: "list_all (\<lambda>c. \<not> is_ascii_alpha c) (py_str_int n)"
proof -
  have "list_all (\<lambda>c. \<not> is_ascii_alpha c) (str_nat k)" for k
    using str_nat_digits [of k] by (induction "str_nat k") (auto simp add: list_all_iff is_digit_not_alpha)
  then show ?thesis
    by (simp add: py_str_int_def dash_not_alpha)
qed

lemma suffix_after_letter:
  assumes "xs @ a # ds = ys @ b # es"
    and "is_ascii_alpha a" and "is_ascii_alpha b"
    and "list_all (\<lambda>c. \<not> is_ascii_alpha c) ds" and "list_all (\<lambda>c. \<not> is_ascii_alpha c) es"
  shows "ds = es"
proof -
  have "takeWhile (\<lambda>c. \<not> is_ascii_alpha c) (rev (xs @ a # ds)) = rev ds"
    using assms(2,4) by (simp add: takeWhile_tail list_all_iff)
  moreover have "takeWhile (\<lambda>c. \<not> is_ascii_alpha c) (rev (ys @ b # es)) = rev es"
    using assms(3,5) by (simp add: takeWhile_tail list_all_iff)
  ultimately have "rev ds = rev es"
    using assms(1) by simp
  then show ?thesis by simp
qed

subsection \<open>Splitting and the order ID\<close>

lemma split_scan_no_sep: "sep \<notin> set s \<Longrightarrow> split_scan sep cur s = [cur @ s]"
  by (induction s arbitrary: cur) auto

lemma split_scan_at_sep:
  "sep \<notin> set b \<Longrightarrow> split_scan sep cur (b @ sep # r) = (cur @ b) # split_scan sep [] r"
  by (induction b arbitrary: cur) auto

lemma split_scan_first:
  "\<exists>rest. split_scan sep cur r = (cur @ takeWhile (\<lambda>c. c \<noteq> sep) r) # rest"
proof (induction r arbitrary: cur)
  case Nil
  show ?case by simp
next
  case (Cons a r)
  show ?case
    using Cons [of "cur @ [a]"] by auto
qed

lemma py_getitem_last:
  "py_getitem xs (- 1) = (if xs = [] then Inl IndexError else Inr (last xs))"
  by (cases xs rule: rev_cases) (simp_all add: py_getitem_def nth_append)

lemma py_getitem_0: "py_getitem (x # xs) 0 = Inr x"
  by (simp add: py_getitem_def)

lemma py_getitem_1: "py_getitem (x # y # xs) 1 = Inr y"
  by (simp add: py_getitem_def)

lemma py_getitem_1_single: "py_getitem [x] 1 = Inl IndexError"
  by (simp add: py_getitem_def)

lemma order_id_no_dash:
  "CHR ''-'' \<notin> set p \<Longrightarrow> get_new_client_order_id broker_id nonce is_buy p = Inl IndexError"
  by (simp add: get_new_client_order_id_def py_split_def split_scan_no_sep py_getitem_0
      py_getitem_1_single)

lemma order_id_split:
  assumes "CHR ''-'' \<notin> set b"
  shows "get_new_client_order_id broker_id nonce is_buy (b @ CHR ''-'' # r) =
     (let q = takeWhile (\<lambda>c. c \<noteq> CHR ''-'') r
      in if b = [] \<or> q = [] then Inl IndexError
         else Inr (broker_id @ ''-'' @ (if is_buy then ''B'' else ''S'')
                   @ take 4 (py_upper b) @ [last (py_upper b)]
                   @ take 2 (py_upper q) @ [last (py_upper q)] @ py_str_int nonce))"
proof -
  obtain rest where r: "split_scan (CHR ''-'') [] r = takeWhile (\<lambda>c. c \<noteq> CHR ''-'') r # rest"
    using split_scan_first [of "CHR ''-''" "[]" r] by auto
  have s: "py_split (CHR ''-'') (b @ CHR ''-'' # r)
             = b # takeWhile (\<lambda>c. c \<noteq> CHR ''-'') r # rest"
    using assms by (simp add: py_split_def split_scan_at_sep r)
  show ?thesis
    by (simp add: get_new_client_order_id_def s py_getitem_0 py_getitem_1 py_getitem_last
        py_upper_def Let_def)
qed

lemma alphabetic_no_dash: "alphabetic s \<Longrightarrow> CHR ''-'' \<notin> set s"
  using dash_not_alpha by (auto simp add: alphabetic_def list_all_iff)

lemma upper_char_alpha: "is_ascii_alpha c \<Longrightarrow> is_ascii_alpha (upper_char c)"
  by (auto simp add: upper_char_def is_ascii_alpha_def is_ascii_upper_def is_ascii_lower_def
      take_bit_eq_mod)

lemma last_upper_alpha: "alphabetic s \<Longrightarrow> is_ascii_alpha (last (py_upper s))"
proof -
  assume a: "alphabetic s"
  then have "s \<noteq> []" and "is_ascii_alpha (last s)"
    by (auto simp add: alphabetic_def list_all_iff)
  then show ?thesis
    by (simp add: py_upper_def last_map upper_char_alpha)
qed

lemma order_id_canonical:
  assumes "alphabetic b" and "alphabetic q"
  shows "get_new_client_order_id broker_id nonce is_buy (b @ ''-'' @ q) =
     Inr ((broker_id @ ''-'' @ (if is_buy then ''B'' else ''S'')
           @ take 4 (py_upper b) @ [last (py_upper b)] @ take 2 (py_upper q))
          @ last (py_upper q) # py_str_int nonce)"
proof -
  have tw: "takeWhile (\<lambda>c. c \<noteq> CHR ''-'') q = q"
    using alphabetic_no_dash [OF assms(2)] by auto
  have ne: "b \<noteq> []" "q \<noteq> []"
    using assms by (simp_all add: alphabetic_def)
  show ?thesis
    using order_id_split [OF alphabetic_no_dash [OF assms(1)], of broker_id nonce is_buy q]
    by (simp add: Let_def tw ne)
qed

lemma order_id_eth_btc:
  "get_new_client_order_id broker_id nonce True ''ETH-BTC''
     = Inr (broker_id @ ''-B'' @ ''ETHH'' @ ''BTC'' @ py_str_int nonce)"
proof -
  have a: "alphabetic ''ETH''" and b: "alphabetic ''BTC''"
    by code_simp+
  have u: "py_upper ''ETH'' = ''ETH''" "py_upper ''BTC'' = ''BTC''"
    by code_simp+
  show ?thesis
    using order_id_canonical [OF a b, of broker_id nonce True] by (simp add: u)
qed

lemma order_id_total:
  "(if CHR ''-'' \<in> set p \<and> base_component p \<noteq> [] \<and> quote_component p \<noteq> []
    then \<exists>order_id. get_new_client_order_id broker_id nonce is_buy p = Inr order_id
    else get_new_client_order_id broker_id nonce is_buy p = Inl IndexError)"
proof (cases "CHR ''-'' \<in> set p")
  case False
  then show ?thesis
    by (simp add: order_id_no_dash)
next
  case True
  let ?P = "\<lambda>c. c \<noteq> CHR ''-''"
  from True have "dropWhile ?P p \<noteq> []"
    by auto
  then have "\<not> ?P (hd (dropWhile ?P p))"
    by (rule hd_dropWhile)
  with \<open>dropWhile ?P p \<noteq> []\<close> have d: "dropWhile ?P p = CHR ''-'' # tl (dropWhile ?P p)"
    by (cases "dropWhile ?P p") simp_all
  have "p = takeWhile ?P p @ dropWhile ?P p"
    by simp
  with d have p: "p = base_component p @ CHR ''-'' # tl (dropWhile ?P p)"
    by (simp add: base_component_def)
  have nb: "CHR ''-'' \<notin> set (base_component p)"
    using set_takeWhileD [of "CHR ''-''" ?P p] by (auto simp add: base_component_def)
  have "get_new_client_order_id broker_id nonce is_buy
          (base_component p @ CHR ''-'' # tl (dropWhile ?P p)) =
     (if base_component p = [] \<or> quote_component p = [] then Inl IndexError
         else Inr (broker_id @ ''-'' @ (if is_buy then ''B'' else ''S'')
                   @ take 4 (py_upper (base_component p)) @ [last (py_upper (base_component p))]
                   @ take 2 (py_upper (quote_component p)) @ [last (py_upper (quote_component p))]
                   @ py_str_int nonce))"
    using order_id_split [OF nb, of broker_id nonce is_buy "tl (dropWhile ?P p)"]
    by (simp add: Let_def quote_component_def)
  with p have "get_new_client_order_id broker_id nonce is_buy p =
     (if base_component p = [] \<or> quote_component p = [] then Inl IndexError
         else Inr (broker_id @ ''-'' @ (if is_buy then ''B'' else ''S'')
                   @ take 4 (py_upper (base_component p)) @ [last (py_upper (base_component p))]
                   @ take 2 (py_upper (quote_component p)) @ [last (py_upper (quote_component p))]
                   @ py_str_int nonce))"
    by simp
  with True show ?thesis
    by simp
qed

lemma order_id_one_dash:
  assumes "CHR ''-'' \<notin> set b" and "CHR ''-'' \<notin> set q"
  shows "(\<exists>order_id. get_new_client_order_id broker_id nonce is_buy (b @ ''-'' @ q)
            = Inr order_id) \<longleftrightarrow> b \<noteq> [] \<and> q \<noteq> []"
proof -
  have tw: "takeWhile (\<lambda>c. c \<noteq> CHR ''-'') q = q"
    using assms(2) by auto
  show ?thesis
    using order_id_split [OF assms(1), of broker_id nonce is_buy q]
    by (auto simp add: Let_def tw)
qed

subsection \<open>The response normalizer\<close>









lemma parsed_body_result:
  assumes "aenter req = Inr resp" and "json resp = Inr body" and "aexit req = None"
  shows "aiohttp_response_with_errors req =
           Inr (Some (status resp),
                (if body = PNone then PStr (reason resp) else body),
                (body = PNone \<or> (status resp \<notin> {200, 201} \<and> py_in ''error'' body \<noteq> Inr True)))"
  using assms
  by (cases "py_in ''error'' body")
     (auto simp add: aiohttp_response_with_errors_def async_with_def with_body_def
        read_body_def temp_failure_def Let_def)

lemma unreadable_body_result:
  assumes "aenter req = Inr resp"
    and "json resp = Inl (Exception e1)" and "read resp = Inl (Exception e2)"
    and "aexit req = None \<or> (\<exists>e. aexit req = Some (Exception e))"
  shows "aiohttp_response_with_errors req = Inr (Some (status resp), PStr (reason resp), True)"
  using assms
  by (auto simp add: aiohttp_response_with_errors_def async_with_def with_body_def
      read_body_def read_raw_def temp_failure_def Let_def)





section \<open>Properties of the symbol codec\<close>

text \<open>
  C9. \<^verbatim>\<open>convert_to_exchange_trading_pair\<close> removes every \<open>-\<close> of its input, not only one
  separator, and lowercases what remains. For every string: the result holds no \<open>-\<close> and
  no uppercase letter; character by character it is the input without its dashes, an
  uppercase letter replaced by the letter 32 code points above it and every other
  character kept, so an input without uppercase letters only loses its dashes; and
  converting the result again changes nothing. \<^verbatim>\<open>ETH-BTC\<close> becomes \<^verbatim>\<open>ethbtc\<close>.
\<close>

theorem convert_to_exchange_trading_pair_idempotent:
  "CHR ''-'' \<notin> set (convert_to_exchange_trading_pair p)
   \<and> list_all (\<lambda>c. \<not> is_uppercase c) (convert_to_exchange_trading_pair p)
   \<and> list_all2 (\<lambda>r c. (of_char r :: nat) = (if is_uppercase c then of_char c + 32 else of_char c))
        (convert_to_exchange_trading_pair p) (filter (\<lambda>c. c \<noteq> CHR ''-'') p)
   \<and> (list_all (\<lambda>c. \<not> is_uppercase c) p \<longrightarrow>
        convert_to_exchange_trading_pair p = filter (\<lambda>c. c \<noteq> CHR ''-'') p)
   \<and> convert_to_exchange_trading_pair (convert_to_exchange_trading_pair p)
       = convert_to_exchange_trading_pair p
   \<and> convert_to_exchange_trading_pair ''ETH-BTC'' = ''ethbtc''
   \<and> convert_to_exchange_trading_pair [CHR 0xC9, CHR ''-'', CHR ''X'', CHR ''-'']
       = [CHR 0xE9, CHR ''x'']"
  using convert_to_no_dash [of p] convert_to_no_uppercase [of p] convert_to_pointwise [of p]
    convert_to_lowercase_input [of p] convert_to_idem [of p] convert_to_examples
  by blast

theorem convert_to_exchange_trading_pair_idempotent_witness:
  "convert_to_exchange_trading_pair ''usd--t-btc'' = ''usdtbtc''
   \<and> convert_to_exchange_trading_pair (convert_to_exchange_trading_pair ''E-TH-btc'')
       = convert_to_exchange_trading_pair ''E-TH-btc''"
proof -
  have l: "list_all (\<lambda>c. \<not> is_uppercase c) ''usd--t-btc''"
    by (simp add: is_uppercase_def is_ascii_upper_def)
  show ?thesis
    using convert_to_exchange_trading_pair_idempotent [of "''usd--t-btc''"]
      convert_to_exchange_trading_pair_idempotent [of "''E-TH-btc''"] l
    by simp
qed

text \<open>
  C7. For every input string and every behaviour of the pattern's \<^verbatim>\<open>match\<close> call,
  \<^verbatim>\<open>split_trading_pair\<close> returns and never raises. When the pattern matches (and has its
  two groups) the result is the pair of the two captured groups; when it does not match,
  when it has fewer than two groups, or when the match call itself faults, the result is
  \<^verbatim>\<open>None\<close>.
\<close>

theorem split_trading_pair_never_raises:
  "(\<exists>r. split_trading_pair splitter trading_pair = Inr r)
   \<and> (\<forall>m. splitter trading_pair = Inr (Some m) \<and> 2 \<le> length (subgroups m)
          \<longrightarrow> split_trading_pair splitter trading_pair
                = Inr (Some (subgroups m ! 0, subgroups m ! 1)))
   \<and> (\<forall>m. splitter trading_pair = Inr (Some m) \<and> length (subgroups m) < 2
          \<longrightarrow> split_trading_pair splitter trading_pair = Inr None)
   \<and> (splitter trading_pair = Inr None
          \<longrightarrow> split_trading_pair splitter trading_pair = Inr None)
   \<and> (\<forall>e. splitter trading_pair = Inl e
          \<longrightarrow> split_trading_pair splitter trading_pair = Inr None)"
  by (auto simp add: split_trading_pair_def split_trading_pair_try_def match_group_def
      split: sum.splits option.splits)

theorem split_trading_pair_never_raises_witness:
  "split_trading_pair eth_btc_pattern ''ethbtc'' = Inr (Some (Some ''eth'', Some ''btc''))
   \<and> split_trading_pair eth_btc_pattern ''not-a-symbol'' = Inr None"
  using split_trading_pair_never_raises [of eth_btc_pattern "''ethbtc''"]
    split_trading_pair_never_raises [of eth_btc_pattern "''not-a-symbol''"]
  by (simp add: eth_btc_pattern_def)

text \<open>
  C1, as amended. The exchange symbol has no separator, so the way back depends on where
  the pattern splits it. For a canonical pair \<open>B-Q\<close> of non-empty uppercase strings: when
  the pattern matches the exchange symbol \<open>lower(B) lower(Q)\<close> with \<open>lower(B)\<close> as group 1 and
  \<open>lower(Q)\<close> as group 2, converting to the exchange form and back returns \<open>B-Q\<close>.
\<close>

theorem roundtrip_when_split_at_boundary:
  assumes "uppercase_ticker B" and "uppercase_ticker Q"
    and "splitter (py_lower B @ py_lower Q) = Inr (Some m)"
    and "match_group m 1 = Inr (Some (py_lower B))"
    and "match_group m 2 = Inr (Some (py_lower Q))"
  shows "convert_from_exchange_trading_pair splitter
           (convert_to_exchange_trading_pair (B @ ''-'' @ Q)) = Inr (Some (B @ ''-'' @ Q))"
proof -
  from assms(1,2) have up: "list_all is_ascii_upper B" "list_all is_ascii_upper Q"
    by (simp_all add: uppercase_ticker_def)
  then have ex: "convert_to_exchange_trading_pair (B @ ''-'' @ Q) = py_lower B @ py_lower Q"
    by (rule convert_to_canonical)
  have "split_trading_pair splitter (py_lower B @ py_lower Q)
          = Inr (Some (Some (py_lower B), Some (py_lower Q)))"
    using assms(3,4,5) by (simp add: split_trading_pair_def split_trading_pair_try_def)
  then show ?thesis
    unfolding ex using up
    by (simp add: convert_from_exchange_trading_pair_def upper_lower_ticker)
qed

theorem roundtrip_when_split_at_boundary_witness:
  "convert_from_exchange_trading_pair eth_btc_pattern
     (convert_to_exchange_trading_pair ''ETH-BTC'') = Inr (Some ''ETH-BTC'')"
proof -
  let ?m = "\<lparr>group0 = ''ethbtc'', subgroups = [Some ''eth'', Some ''btc'']\<rparr>"
  have 1: "uppercase_ticker ''ETH''" and 2: "uppercase_ticker ''BTC''"
    by code_simp+
  have 3: "eth_btc_pattern (py_lower ''ETH'' @ py_lower ''BTC'') = Inr (Some ?m)"
    by code_simp
  have 4: "match_group ?m 1 = Inr (Some (py_lower ''ETH''))"
    by code_simp
  have 5: "match_group ?m 2 = Inr (Some (py_lower ''BTC''))"
    by code_simp
  show ?thesis
    using roundtrip_when_split_at_boundary
      [of "''ETH''" "''BTC''" eth_btc_pattern ?m, OF 1 2 3 4 5] by simp
qed

text \<open>
  C1, as stated, fails for every pattern: \<^verbatim>\<open>ETH-BTC\<close> and \<^verbatim>\<open>E-THBTC\<close> are both canonical
  pairs and both have the exchange symbol \<^verbatim>\<open>ethbtc\<close>, so no pattern brings both back.
\<close>

theorem roundtrip_ambiguous:
  "uppercase_ticker ''ETH'' \<and> uppercase_ticker ''BTC''
   \<and> uppercase_ticker ''E'' \<and> uppercase_ticker ''THBTC''
   \<and> \<not> (\<exists>splitter.
          convert_from_exchange_trading_pair splitter
            (convert_to_exchange_trading_pair ''ETH-BTC'') = Inr (Some ''ETH-BTC'')
        \<and> convert_from_exchange_trading_pair splitter
            (convert_to_exchange_trading_pair ''E-THBTC'') = Inr (Some ''E-THBTC''))"
proof -
  have 1: "convert_to_exchange_trading_pair ''ETH-BTC'' = ''ethbtc''"
    by (simp add: convert_to_eq lower_char_def is_uppercase_def is_ascii_upper_def
        char_of_eq_iff)
  have 2: "convert_to_exchange_trading_pair ''E-THBTC'' = ''ethbtc''"
    by (simp add: convert_to_eq lower_char_def is_uppercase_def is_ascii_upper_def
        char_of_eq_iff)
  have 3: "uppercase_ticker ''ETH'' \<and> uppercase_ticker ''BTC''
   \<and> uppercase_ticker ''E'' \<and> uppercase_ticker ''THBTC''"
    by (simp add: uppercase_ticker_def is_ascii_upper_def)
  show ?thesis
    unfolding 1 2 using 3 by auto
qed

section \<open>Properties of the order ID generator\<close>

text \<open>
  C5, as amended. \<^verbatim>\<open>get_new_client_order_id(True, "ETH-BTC")\<close> returns the broker prefix,
  \<open>-B\<close>, the base fragment \<^verbatim>\<open>ETHH\<close> (the first four characters of \<^verbatim>\<open>ETH\<close>, a slice that is
  safe on a shorter string, and its last character), the quote fragment \<^verbatim>\<open>BTC\<close> (the first
  two characters of \<^verbatim>\<open>BTC\<close> and its last), then the nonce, which for a nonce that is not
  negative is a non-empty string of decimal digits.
\<close>

theorem client_order_id_eth_btc:
  "get_new_client_order_id broker_id nonce True ''ETH-BTC''
     = Inr (broker_id @ ''-B'' @ ''ETHH'' @ ''BTC'' @ py_str_int nonce)
   \<and> (0 \<le> nonce \<longrightarrow> py_str_int nonce \<noteq> [] \<and> list_all is_digit (py_str_int nonce))"
  by (simp add: order_id_eth_btc py_str_int_def str_nat_not_Nil str_nat_digits)

theorem client_order_id_eth_btc_witness:
  "get_new_client_order_id ''HBOT'' 1609459200000123 True ''ETH-BTC''
     = Inr ''HBOT-BETHHBTC1609459200000123''
   \<and> list_all is_digit ''1609459200000123''"
proof -
  have n: "py_str_int 1609459200000123 = ''1609459200000123''"
    by (simp add: py_str_int_def str_nat.simps digit_char_def char_of_eq_iff)
  have "(0::int) \<le> 1609459200000123"
    by simp
  then show ?thesis
    using client_order_id_eth_btc [of "''HBOT''" 1609459200000123] by (simp add: n)
qed

text \<open>
  C5, as stated, names \<^verbatim>\<open>ETC\<close> as the quote fragment: for no broker prefix and no nonce
  is that the result.
\<close>

theorem client_order_id_eth_btc_not_etc:
  "\<not> (\<exists>broker_id nonce.
         get_new_client_order_id broker_id nonce True ''ETH-BTC''
           = Inr (broker_id @ ''-B'' @ ''ETHH'' @ ''ETC'' @ py_str_int nonce))"
  by (simp add: order_id_eth_btc)

text \<open>
  C6. Two invocations on trading pairs whose asset codes are non-empty alphabetic
  strings both return, and when the nonces they draw differ the two IDs differ, whatever
  the sides and the pairs are.
\<close>

theorem client_order_ids_distinct:
  assumes "alphabetic b1" and "alphabetic q1" and "alphabetic b2" and "alphabetic q2"
    and "nonce1 \<noteq> nonce2"
  shows "\<exists>id1 id2.
           get_new_client_order_id broker_id nonce1 is_buy1 (b1 @ ''-'' @ q1) = Inr id1
         \<and> get_new_client_order_id broker_id nonce2 is_buy2 (b2 @ ''-'' @ q2) = Inr id2
         \<and> id1 \<noteq> id2"
proof -
  let ?x1 = "broker_id @ ''-'' @ (if is_buy1 then ''B'' else ''S'')
           @ take 4 (py_upper b1) @ [last (py_upper b1)] @ take 2 (py_upper q1)"
  let ?x2 = "broker_id @ ''-'' @ (if is_buy2 then ''B'' else ''S'')
           @ take 4 (py_upper b2) @ [last (py_upper b2)] @ take 2 (py_upper q2)"
  let ?id1 = "?x1 @ last (py_upper q1) # py_str_int nonce1"
  let ?id2 = "?x2 @ last (py_upper q2) # py_str_int nonce2"
  have 1: "get_new_client_order_id broker_id nonce1 is_buy1 (b1 @ ''-'' @ q1) = Inr ?id1"
    using assms(1,2) by (rule order_id_canonical)
  have 2: "get_new_client_order_id broker_id nonce2 is_buy2 (b2 @ ''-'' @ q2) = Inr ?id2"
    using assms(3,4) by (rule order_id_canonical)
  have "?id1 \<noteq> ?id2"
  proof
    assume "?id1 = ?id2"
    then have "py_str_int nonce1 = py_str_int nonce2"
      using last_upper_alpha [OF assms(2)] last_upper_alpha [OF assms(4)]
        py_str_int_no_alpha [of nonce1] py_str_int_no_alpha [of nonce2]
      by (rule suffix_after_letter)
    then have "nonce1 = nonce2"
      by (rule py_str_int_inj)
    with assms(5) show False by simp
  qed
  with 1 2 show ?thesis by blast
qed

theorem client_order_ids_distinct_witness:
  "alphabetic ''ETH'' \<and> alphabetic ''BTC'' \<and> alphabetic ''LTC'' \<and> alphabetic ''USDT''
   \<and> get_new_client_order_id ''HBOT'' 7 True ''ETH-BTC''
       \<noteq> get_new_client_order_id ''HBOT'' 8 False ''LTC-USDT''"
proof -
  have a: "alphabetic ''ETH''" "alphabetic ''BTC''" "alphabetic ''LTC''" "alphabetic ''USDT''"
    by code_simp+
  have n: "(7::int) \<noteq> 8"
    by simp
  show ?thesis
    using client_order_ids_distinct [OF a n, of "''HBOT''" True False] a by auto
qed

text \<open>
  C10. \<^verbatim>\<open>get_new_client_order_id\<close> returns an ID exactly when the trading pair holds a
  \<open>-\<close> and its base and quote components, the fields 0 and 1 of the split, are not
  empty: the base is the text before the first \<open>-\<close>, the quote the text between the first
  \<open>-\<close> and the next one (or the end). Under that precondition no indexing operation
  faults; on every other string, one without a \<open>-\<close> or with an empty base or quote
  component, an indexing operation raises \<^verbatim>\<open>IndexError\<close>. For a pair with a single \<open>-\<close> the
  precondition is that the text on both sides of it is not empty.
\<close>

theorem get_new_client_order_id_total_iff:
  "(if CHR ''-'' \<in> set p \<and> base_component p \<noteq> [] \<and> quote_component p \<noteq> []
    then \<exists>order_id. get_new_client_order_id broker_id nonce is_buy p = Inr order_id
    else get_new_client_order_id broker_id nonce is_buy p = Inl IndexError)
   \<and> (\<forall>b q. p = b @ ''-'' @ q \<and> CHR ''-'' \<notin> set b \<and> CHR ''-'' \<notin> set q \<longrightarrow>
          ((\<exists>order_id. get_new_client_order_id broker_id nonce is_buy p = Inr order_id)
             \<longleftrightarrow> b \<noteq> [] \<and> q \<noteq> []))"
  using order_id_total [of p broker_id nonce is_buy] order_id_one_dash [of _ _ broker_id nonce is_buy]
  by blast

theorem get_new_client_order_id_total_iff_witness:
  "(\<exists>order_id. get_new_client_order_id ''HBOT'' 7 True ''ETH-BTC'' = Inr order_id)
   \<and> get_new_client_order_id ''HBOT'' 7 True ''ETHBTC'' = Inl IndexError
   \<and> get_new_client_order_id ''HBOT'' 7 True ''-BTC'' = Inl IndexError
   \<and> get_new_client_order_id ''HBOT'' 7 True ''ETH-'' = Inl IndexError
   \<and> get_new_client_order_id ''HBOT'' 7 True ''ETH--BTC'' = Inl IndexError"
  using get_new_client_order_id_total_iff [of "''ETH-BTC''" "''HBOT''" 7 True]
    get_new_client_order_id_total_iff [of "''ETHBTC''" "''HBOT''" 7 True]
    get_new_client_order_id_total_iff [of "''-BTC''" "''HBOT''" 7 True]
    get_new_client_order_id_total_iff [of "''ETH-''" "''HBOT''" 7 True]
    get_new_client_order_id_total_iff [of "''ETH--BTC''" "''HBOT''" 7 True]
  by (simp add: base_component_def quote_component_def)

section \<open>Properties of the response normalizer\<close>

text \<open>
  C2. When the request completes (the block is entered and left without a fault) and the
  body parses as JSON, the errors flag is true exactly when the body is \<^verbatim>\<open>None\<close>, or the
  status is neither 200 nor 201 and \<^verbatim>\<open>"error" in body\<close> does not hold. For a JSON object
  that is: the status is neither 200 nor 201 and the object has no \<^verbatim>\<open>error\<close> key; so an
  object with an \<^verbatim>\<open>error\<close> key is returned with the flag false under any status.
\<close>

theorem errors_flag_on_parsed_body:
  assumes "aenter req = Inr resp" and "json resp = Inr body" and "aexit req = None"
  shows "aiohttp_response_with_errors req =
           Inr (Some (status resp),
                (if body = PNone then PStr (reason resp) else body),
                (body = PNone \<or> (status resp \<notin> {200, 201} \<and> py_in ''error'' body \<noteq> Inr True)))
         \<and> (\<forall>fields. body = PDict fields \<longrightarrow>
               aiohttp_response_with_errors req =
                 Inr (Some (status resp), body,
                      status resp \<notin> {200, 201} \<and> ''error'' \<notin> set (map fst fields)))"
  using parsed_body_result [OF assms] by auto

theorem errors_flag_on_parsed_body_witness:
  "aiohttp_response_with_errors
     \<lparr>aenter = Inr \<lparr>status = 500, reason = ''Internal Server Error'',
                     json = Inr (PDict [(''error'', PStr ''fail'')]), read = Inr []\<rparr>,
      aexit = None\<rparr>
   = Inr (Some 500, PDict [(''error'', PStr ''fail'')], False)
   \<and> aiohttp_response_with_errors
     \<lparr>aenter = Inr \<lparr>status = 500, reason = ''Internal Server Error'',
                     json = Inr (PDict [(''msg'', PStr ''fail'')]), read = Inr []\<rparr>,
      aexit = None\<rparr>
   = Inr (Some 500, PDict [(''msg'', PStr ''fail'')], True)
   \<and> aiohttp_response_with_errors
     \<lparr>aenter = Inr \<lparr>status = 200, reason = ''OK'',
                     json = Inr (PDict [(''result'', PInt 1)]), read = Inr []\<rparr>,
      aexit = None\<rparr>
   = Inr (Some 200, PDict [(''result'', PInt 1)], False)
   \<and> aiohttp_response_with_errors
     \<lparr>aenter = Inr \<lparr>status = 200, reason = ''OK'', json = Inr PNone, read = Inr []\<rparr>,
      aexit = None\<rparr>
   = Inr (Some 200, PStr ''OK'', True)"
  using
    errors_flag_on_parsed_body [of
      "\<lparr>aenter = Inr \<lparr>status = 500, reason = ''Internal Server Error'',
                     json = Inr (PDict [(''error'', PStr ''fail'')]), read = Inr []\<rparr>,
        aexit = None\<rparr>"
      "\<lparr>status = 500, reason = ''Internal Server Error'',
                     json = Inr (PDict [(''error'', PStr ''fail'')]), read = Inr []\<rparr>"
      "PDict [(''error'', PStr ''fail'')]"]
    errors_flag_on_parsed_body [of
      "\<lparr>aenter = Inr \<lparr>status = 500, reason = ''Internal Server Error'',
                     json = Inr (PDict [(''msg'', PStr ''fail'')]), read = Inr []\<rparr>,
        aexit = None\<rparr>"
      "\<lparr>status = 500, reason = ''Internal Server Error'',
                     json = Inr (PDict [(''msg'', PStr ''fail'')]), read = Inr []\<rparr>"
      "PDict [(''msg'', PStr ''fail'')]"]
    errors_flag_on_parsed_body [of
      "\<lparr>aenter = Inr \<lparr>status = 200, reason = ''OK'',
                     json = Inr (PDict [(''result'', PInt 1)]), read = Inr []\<rparr>,
        aexit = None\<rparr>"
      "\<lparr>status = 200, reason = ''OK'',
                     json = Inr (PDict [(''result'', PInt 1)]), read = Inr []\<rparr>"
      "PDict [(''result'', PInt 1)]"]
    errors_flag_on_parsed_body [of
      "\<lparr>aenter = Inr \<lparr>status = 200, reason = ''OK'', json = Inr PNone, read = Inr []\<rparr>,
        aexit = None\<rparr>"
      "\<lparr>status = 200, reason = ''OK'', json = Inr PNone, read = Inr []\<rparr>"
      "PNone"]
  by simp




text \<open>
  C4, as amended. When \<^verbatim>\<open>json()\<close> raises and \<^verbatim>\<open>read()\<close> raises too (faults of the class
  \<^verbatim>\<open>Exception\<close>, and the exit raising none or one of that class), the body is still
  \<^verbatim>\<open>None\<close> at the failure test, which puts the reason phrase of the response in its
  place: the triple is the status, the reason phrase, and the flag set.
\<close>

theorem unreadable_body_gives_reason:
  assumes "aenter req = Inr resp"
    and "json resp = Inl (Exception e1)" and "read resp = Inl (Exception e2)"
    and "aexit req = None \<or> (\<exists>e. aexit req = Some (Exception e))"
  shows "aiohttp_response_with_errors req = Inr (Some (status resp), PStr (reason resp), True)"
  using assms by (rule unreadable_body_result)

theorem unreadable_body_gives_reason_witness:
  "aiohttp_response_with_errors
     \<lparr>aenter = Inr \<lparr>status = 500, reason = ''Internal Server Error'',
                     json = Inl (Exception (Fault ''ContentTypeError'')),
                     read = Inl (Exception (Fault ''ClientPayloadError''))\<rparr>,
      aexit = None\<rparr>
   = Inr (Some 500, PStr ''Internal Server Error'', True)"
  using unreadable_body_gives_reason [of
      "\<lparr>aenter = Inr \<lparr>status = 500, reason = ''Internal Server Error'',
                     json = Inl (Exception (Fault ''ContentTypeError'')),
                     read = Inl (Exception (Fault ''ClientPayloadError''))\<rparr>,
        aexit = None\<rparr>"
      "\<lparr>status = 500, reason = ''Internal Server Error'',
                     json = Inl (Exception (Fault ''ContentTypeError'')),
                     read = Inl (Exception (Fault ''ClientPayloadError''))\<rparr>"
      "Fault ''ContentTypeError''" "Fault ''ClientPayloadError''"]
  by simp

text \<open>
  C4, as stated, gives the body as \<^verbatim>\<open>None\<close>: a response \<^verbatim>\<open>500 Internal Server Error\<close>
  whose two reads raise is returned with the body \<^verbatim>\<open>Internal Server Error\<close>.
\<close>

theorem unreadable_body_not_none:
  "aiohttp_response_with_errors
     \<lparr>aenter = Inr \<lparr>status = 500, reason = ''Internal Server Error'',
                     json = Inl (Exception (Fault ''ContentTypeError'')),
                     read = Inl (Exception (Fault ''ClientPayloadError''))\<rparr>,
      aexit = None\<rparr>
   \<noteq> Inr (Some 500, PNone, True)"
  using unreadable_body_result [of
      "\<lparr>aenter = Inr \<lparr>status = 500, reason = ''Internal Server Error'',
                     json = Inl (Exception (Fault ''ContentTypeError'')),
                     read = Inl (Exception (Fault ''ClientPayloadError''))\<rparr>,
        aexit = None\<rparr>"
      "\<lparr>status = 500, reason = ''Internal Server Error'',
                     json = Inl (Exception (Fault ''ContentTypeError'')),
                     read = Inl (Exception (Fault ''ClientPayloadError''))\<rparr>"
      "Fault ''ContentTypeError''" "Fault ''ClientPayloadError''"]
  by simp

end
